theory Spec2Isabelle
  imports Complex_Main
begin

section \<open>Inventory server (server.js): data model\<close>

text \<open>
  The server keeps three collections that the routes below read and write: shelves (with
  their embedded positions), materials and inspections. A collection is a list of documents
  in insertion order. An ObjectId is a natural number, a Date is an integer time stamp, and
  a Number is an integer (the condition percentage, the shelf number and the slot index are
  integers in every request the properties below speak about).

  A request body is a record of optional fields: \<open>None\<close> is a key that the body does not
  carry (JavaScript's \<open>undefined\<close>).
\<close>

type_synonym oid = nat
type_synonym date = int

text \<open>
  ShelfSchema.positions (lines 50-56). The \<open>_id\<close> that the library gives each element of the
  array is left out: no route reads it.
\<close>

record position =
  positionId :: string
  level :: string
  positionNumber :: int
  occupied :: bool
  materialId :: "oid option"

text \<open>ShelfSchema (lines 45-59).\<close>

record shelf =
  s_id :: oid
  s_name :: string
  s_row :: string
  s_number :: int
  s_color :: string
  s_positions :: "position list"
  s_createdBy :: "oid option"
  s_createdAt :: date

text \<open>MaterialSchema (lines 61-78).\<close>

record material =
  m_id :: oid
  m_name :: string
  m_category :: string
  m_description :: "string option"
  m_entryDate :: date
  m_condition :: int
  m_state :: string
  m_shelf :: string
  m_shelfId :: "oid option"
  m_position :: string
  m_color :: string
  m_image :: "string option"
  m_notes :: "string option"
  m_lastInspection :: "date option"
  m_nextInspection :: "date option"
  m_createdBy :: "oid option"
  m_createdAt :: date

text \<open>InspectionSchema (lines 80-90).\<close>

record inspection =
  i_id :: oid
  i_date :: date
  i_materials :: "oid list"
  i_inspector :: string
  i_type :: string
  i_status :: string
  i_result :: "string option"
  i_notes :: "string option"
  i_report :: "string option"
  i_createdAt :: date

text \<open>The database: the three collections.\<close>

record db =
  shelves :: "shelf list"
  materials :: "material list"
  inspections :: "inspection list"

definition empty_db :: db where
  "empty_db = \<lparr>shelves = [], materials = [], inspections = []\<rparr>"

text \<open>
  What the runtime gives a request: the ObjectId that \<open>new Model(...)\<close> generates for the
  new document, and the clock that \<open>Date.now\<close> reads for the \<open>createdAt\<close> default.
\<close>

record env =
  fresh_id :: oid
  now :: date

text \<open>
  Every route answers an exception with status 400 and the exception's message; the only
  other error answers are the 400 of an existing shelf (line 133) and the 404 of
  \<open>GET /api/materials/:id\<close> (line 257).
\<close>

datatype error =
    ShelfExists        \<comment> \<open>400, 'Cette etagere existe deja'\<close>
  | ValidationError    \<comment> \<open>400, a schema validator rejected the document on save\<close>
  | DuplicateKey       \<comment> \<open>400, the collection already holds a document with this id\<close>
  | TypeError          \<comment> \<open>400, a property of null was read\<close>
  | NotFound           \<comment> \<open>404, 'Materiel non trouve'\<close>

section \<open>Schema validators\<close>

text \<open>
  \<open>required: true\<close> on a String path rejects a missing value and the empty string; on a
  Number or Date path it rejects a missing value. \<open>min\<close> and \<open>max\<close> bound a Number.
  The validators run when a new document is saved, not on \<open>findByIdAndUpdate\<close>
  (no \<open>runValidators\<close> option is passed anywhere).
\<close>

definition with_default :: "'a \<Rightarrow> 'a option \<Rightarrow> 'a" where
  "with_default d v = (case v of None \<Rightarrow> d | Some x \<Rightarrow> x)"

section \<open>Template strings\<close>

text \<open>
  A template literal prints an integer Number in decimal (below \<open>10^21\<close> in absolute
  value, where JavaScript switches to exponent notation; the model prints every integer in
  decimal) and \<open>undefined\<close> as the word.
\<close>

definition digit_char :: "nat \<Rightarrow> char" where
  "digit_char d =
     (if d = 0 then CHR ''0'' else if d = 1 then CHR ''1'' else if d = 2 then CHR ''2''
      else if d = 3 then CHR ''3'' else if d = 4 then CHR ''4'' else if d = 5 then CHR ''5''
      else if d = 6 then CHR ''6'' else if d = 7 then CHR ''7'' else if d = 8 then CHR ''8''
      else CHR ''9'')"

function nat_to_string :: "nat \<Rightarrow> string" where
  "nat_to_string n =
     (if n < 10 then [digit_char n] else nat_to_string (n div 10) @ [digit_char (n mod 10)])"
  by pat_completeness auto
termination
  by (relation "measure (\<lambda>n. n)") auto

declare nat_to_string.simps [simp del]

definition number_to_string :: "int \<Rightarrow> string" where
  "number_to_string i =
     (if i < 0 then CHR ''-'' # nat_to_string (nat (- i)) else nat_to_string (nat i))"

definition tmpl_string :: "string option \<Rightarrow> string" where
  "tmpl_string v = (case v of None \<Rightarrow> ''undefined'' | Some s \<Rightarrow> s)"

definition tmpl_number :: "int option \<Rightarrow> string" where
  "tmpl_number v = (case v of None \<Rightarrow> ''undefined'' | Some n \<Rightarrow> number_to_string n)"

section \<open>POST /api/shelves (lines 126-164)\<close>

record shelf_body =
  sb_name :: "string option"
  sb_row :: "string option"
  sb_number :: "int option"
  sb_color :: "string option"

text \<open>Line 138.\<close>

definition levels :: "string list" where
  "levels = [''H'', ''M'', ''B'']"

text \<open>Lines 142-147: the object pushed for level code \<open>lvl\<close> and index \<open>i\<close>.\<close>

definition new_position :: "string \<Rightarrow> string \<Rightarrow> string \<Rightarrow> int \<Rightarrow> position" where
  "new_position row number lvl i =
     \<lparr>positionId = row @ number @ ''-'' @ lvl @ number_to_string i,
      level = (if lvl = ''H'' then ''Haut'' else if lvl = ''M'' then ''Milieu'' else ''Bas''),
      positionNumber = i,
      occupied = False,
      materialId = None\<rparr>"

text \<open>Lines 141-148: \<open>for (let i = 1; i <= 3; i++) positions.push(...)\<close>.\<close>

function push_slots :: "string \<Rightarrow> string \<Rightarrow> string \<Rightarrow> int \<Rightarrow> position list \<Rightarrow> position list" where
  "push_slots row number lvl i positions =
     (if i \<le> 3 then push_slots row number lvl (i + 1) (positions @ [new_position row number lvl i])
      else positions)"
  by pat_completeness auto
termination
  by (relation "measure (\<lambda>(row, number, lvl, i, positions). nat (4 - i))") auto

declare push_slots.simps [simp del]

text \<open>Lines 137-149: \<open>levels.forEach\<close> over the empty array.\<close>

definition make_positions :: "string \<Rightarrow> string \<Rightarrow> position list" where
  "make_positions row number =
     foldl (\<lambda>positions lvl. push_slots row number lvl 1 positions) [] levels"

text \<open>
  \<open>Shelf.findOne({ row, number })\<close>: a stored shelf always has both fields, so a missing
  value in the filter matches none.
\<close>

definition find_shelf_at :: "string option \<Rightarrow> int option \<Rightarrow> shelf list \<Rightarrow> shelf option" where
  "find_shelf_at row number shs =
     find (\<lambda>sh. Some (s_row sh) = row \<and> Some (s_number sh) = number) shs"

text \<open>
  \<open>new Shelf({...})\<close> and \<open>shelf.save()\<close> (lines 151-159): the validators of the schema,
  then the insertion, which the collection refuses for an \<open>_id\<close> it already holds.
\<close>

definition save_shelf :: "env \<Rightarrow> db \<Rightarrow> shelf_body \<Rightarrow> position list \<Rightarrow> error + (db \<times> shelf)" where
  "save_shelf e s b positions =
     (case (sb_name b, sb_row b, sb_number b) of
        (Some name, Some row, Some number) \<Rightarrow>
          if name = [] \<or> row = [] then Inl ValidationError
          else if fresh_id e \<in> set (map s_id (shelves s)) then Inl DuplicateKey
          else
            (let sh = \<lparr>s_id = fresh_id e, s_name = name, s_row = row, s_number = number,
                       s_color = with_default ''#3b82f6'' (sb_color b),
                       s_positions = positions,
                       s_createdBy = None, s_createdAt = now e\<rparr>
             in Inr (s\<lparr>shelves := shelves s @ [sh]\<rparr>, sh))
      | _ \<Rightarrow> Inl ValidationError)"

definition createShelf :: "env \<Rightarrow> db \<Rightarrow> shelf_body \<Rightarrow> error + (db \<times> shelf)" where
  "createShelf e s b =
     (case find_shelf_at (sb_row b) (sb_number b) (shelves s) of
        Some existingShelf \<Rightarrow> Inl ShelfExists
      | None \<Rightarrow>
          save_shelf e s b (make_positions (tmpl_string (sb_row b)) (tmpl_number (sb_number b))))"

text \<open>
  The grid as the specification words it: three levels with codes H, M, B (High, Mid, Low),
  three slots with index 1..3 on each, the identifier \<open>{row}{number}-{levelCode}{index}\<close>,
  nothing occupied and no material referenced.
\<close>

definition spec_position :: "string \<Rightarrow> int \<Rightarrow> string \<Rightarrow> string \<Rightarrow> int \<Rightarrow> position" where
  "spec_position row number code label i =
     \<lparr>positionId = row @ number_to_string number @ ''-'' @ code @ number_to_string i,
      level = label, positionNumber = i, occupied = False, materialId = None\<rparr>"

definition spec_grid :: "string \<Rightarrow> int \<Rightarrow> position list" where
  "spec_grid row number =
     [spec_position row number ''H'' ''Haut'' 1, spec_position row number ''H'' ''Haut'' 2,
      spec_position row number ''H'' ''Haut'' 3,
      spec_position row number ''M'' ''Milieu'' 1, spec_position row number ''M'' ''Milieu'' 2,
      spec_position row number ''M'' ''Milieu'' 3,
      spec_position row number ''B'' ''Bas'' 1, spec_position row number ''B'' ''Bas'' 2,
      spec_position row number ''B'' ''Bas'' 3]"

section \<open>The condition thresholds\<close>

text \<open>
  The chain of comparisons at lines 194-200 (on \<open>materialData.condition\<close>) and again at
  lines 276-282 (on \<open>parseInt(updateData.condition)\<close>): the same constants, the same order.
\<close>

definition classify :: "int \<Rightarrow> string" where
  "classify condition =
     (if condition \<ge> 80 then ''good''
      else if condition \<ge> 40 then ''warning''
      else ''bad'')"

section \<open>Documents of the material routes\<close>

text \<open>\<open>req.body\<close> of \<open>POST /api/materials\<close> and of \<open>PUT /api/materials/:id\<close>.\<close>

record material_data =
  md_name :: "string option"
  md_category :: "string option"
  md_description :: "string option"
  md_entryDate :: "date option"
  md_condition :: "int option"
  md_state :: "string option"
  md_shelf :: "string option"
  md_shelfId :: "oid option"
  md_position :: "string option"
  md_color :: "string option"
  md_image :: "string option"
  md_notes :: "string option"
  md_lastInspection :: "date option"
  md_nextInspection :: "date option"
  md_createdBy :: "oid option"
  md_createdAt :: "date option"

text \<open>Lines 189-191 and 269-271: \<open>file\<close> is the stored file's name when one was uploaded.\<close>

definition attach_image :: "string option \<Rightarrow> material_data \<Rightarrow> material_data" where
  "attach_image file md =
     (case file of None \<Rightarrow> md | Some filename \<Rightarrow> md\<lparr>md_image := Some (''/uploads/'' @ filename)\<rparr>)"

text \<open>
  Lines 193-200. A missing condition compares false with both thresholds, which leaves the
  last branch.
\<close>

definition post_set_state :: "material_data \<Rightarrow> material_data" where
  "post_set_state md =
     md\<lparr>md_state := Some (case md_condition md of None \<Rightarrow> ''bad'' | Some c \<Rightarrow> classify c)\<rparr>"

text \<open>
  Lines 273-283. The guard \<open>if (updateData.condition)\<close> is false for a missing condition and
  for the number 0; \<open>parseInt\<close> of an integer Number (below \<open>10^21\<close> in absolute value) is
  that integer.
\<close>

definition put_set_state :: "material_data \<Rightarrow> material_data" where
  "put_set_state md =
     (case md_condition md of
        None \<Rightarrow> md
      | Some c \<Rightarrow> if c \<noteq> 0 then md\<lparr>md_state := Some (classify c)\<rparr> else md)"

section \<open>Collection operations\<close>

text \<open>The first document the predicate holds of is replaced; the others stay.\<close>

fun update_first :: "('a \<Rightarrow> bool) \<Rightarrow> ('a \<Rightarrow> 'a) \<Rightarrow> 'a list \<Rightarrow> 'a list" where
  "update_first P f [] = []"
| "update_first P f (x # xs) = (if P x then f x # xs else x # update_first P f xs)"

fun remove_first :: "('a \<Rightarrow> bool) \<Rightarrow> 'a list \<Rightarrow> 'a list" where
  "remove_first P [] = []"
| "remove_first P (x # xs) = (if P x then xs else x # remove_first P xs)"

text \<open>
  The update \<open>$set: { "positions.$[pos].occupied": occ, "positions.$[pos].materialId": ref }\<close>
  with \<open>arrayFilters: [{ "pos.positionId": pid }]\<close>: every element of the array whose
  identifier is \<open>pid\<close> gets both fields, every other element is kept.
\<close>

definition set_positions :: "string \<Rightarrow> bool \<Rightarrow> oid option \<Rightarrow> shelf \<Rightarrow> shelf" where
  "set_positions pid occ mref sh =
     sh\<lparr>s_positions :=
          map (\<lambda>pos. if positionId pos = pid then pos\<lparr>occupied := occ, materialId := mref\<rparr> else pos)
            (s_positions sh)\<rparr>"

text \<open>
  \<open>Shelf.findByIdAndUpdate(shelfId, ..., { arrayFilters })\<close> (lines 207-211 and 303-307):
  the shelf with this \<open>_id\<close> is updated; when there is none, or no element passes the filter,
  nothing changes and nothing is thrown.
\<close>

definition setOccupancy :: "oid \<Rightarrow> string \<Rightarrow> bool \<Rightarrow> oid option \<Rightarrow> db \<Rightarrow> db" where
  "setOccupancy shelfId pid occ mref s =
     s\<lparr>shelves := update_first (\<lambda>sh. s_id sh = shelfId) (set_positions pid occ mref) (shelves s)\<rparr>"

definition findById :: "oid \<Rightarrow> material list \<Rightarrow> material option" where
  "findById mid ms = find (\<lambda>m. m_id m = mid) ms"

definition findShelfById :: "oid \<Rightarrow> shelf list \<Rightarrow> shelf option" where
  "findShelfById sid shs = find (\<lambda>sh. s_id sh = sid) shs"

section \<open>POST /api/materials (lines 185-218)\<close>

text \<open>
  \<open>new Material(materialData)\<close> and \<open>material.save()\<close> (lines 202-203): the validators of
  MaterialSchema (the required paths, and \<open>min: 0, max: 100\<close> on the condition), the
  defaults, then the insertion.
\<close>

definition save_material :: "env \<Rightarrow> db \<Rightarrow> material_data \<Rightarrow> error + (db \<times> material)" where
  "save_material e s md =
     (case (md_name md, md_category md, md_entryDate md, md_condition md, md_shelf md,
            md_position md) of
        (Some name, Some category, Some entryDate, Some condition, Some shelf, Some position) \<Rightarrow>
          if name = [] \<or> category = [] \<or> shelf = [] \<or> position = [] then Inl ValidationError
          else if condition < 0 \<or> 100 < condition then Inl ValidationError
          else if fresh_id e \<in> set (map m_id (materials s)) then Inl DuplicateKey
          else
            (let m = \<lparr>m_id = fresh_id e, m_name = name, m_category = category,
                      m_description = md_description md, m_entryDate = entryDate,
                      m_condition = condition, m_state = with_default ''good'' (md_state md),
                      m_shelf = shelf, m_shelfId = md_shelfId md, m_position = position,
                      m_color = with_default ''#3b82f6'' (md_color md), m_image = md_image md,
                      m_notes = md_notes md, m_lastInspection = md_lastInspection md,
                      m_nextInspection = md_nextInspection md, m_createdBy = md_createdBy md,
                      m_createdAt = with_default (now e) (md_createdAt md)\<rparr>
             in Inr (s\<lparr>materials := materials s @ [m]\<rparr>, m))
      | _ \<Rightarrow> Inl ValidationError)"

definition createMaterial :: "env \<Rightarrow> db \<Rightarrow> string option \<Rightarrow> material_data \<Rightarrow> error + (db \<times> material)" where
  "createMaterial e s file body =
     (let materialData = post_set_state (attach_image file body) in
      case save_material e s materialData of
        Inl err \<Rightarrow> Inl err
      | Inr (s1, material) \<Rightarrow>
          (case m_shelfId material of
             Some shelfId \<Rightarrow>
               Inr (setOccupancy shelfId (m_position material) True (Some (m_id material)) s1,
                    material)
           | None \<Rightarrow> Inr (s1, material)))"

section \<open>GET /api/materials/:id (lines 253-263)\<close>

definition getMaterial :: "db \<Rightarrow> oid \<Rightarrow> error + material" where
  "getMaterial s mid =
     (case findById mid (materials s) of
        None \<Rightarrow> Inl NotFound
      | Some material \<Rightarrow> Inr material)"

section \<open>PUT /api/materials/:id (lines 265-295)\<close>

text \<open>
  \<open>Material.findByIdAndUpdate(id, updateData, { new: true })\<close>: every key of the update is
  set on the document, no validator runs, and the query answers \<open>null\<close> when no document has
  the \<open>_id\<close>.
\<close>

definition apply_update :: "material_data \<Rightarrow> material \<Rightarrow> material" where
  "apply_update u m =
     m\<lparr>m_name := with_default (m_name m) (md_name u),
       m_category := with_default (m_category m) (md_category u),
       m_description := (case md_description u of None \<Rightarrow> m_description m | Some v \<Rightarrow> Some v),
       m_entryDate := with_default (m_entryDate m) (md_entryDate u),
       m_condition := with_default (m_condition m) (md_condition u),
       m_state := with_default (m_state m) (md_state u),
       m_shelf := with_default (m_shelf m) (md_shelf u),
       m_shelfId := (case md_shelfId u of None \<Rightarrow> m_shelfId m | Some v \<Rightarrow> Some v),
       m_position := with_default (m_position m) (md_position u),
       m_color := with_default (m_color m) (md_color u),
       m_image := (case md_image u of None \<Rightarrow> m_image m | Some v \<Rightarrow> Some v),
       m_notes := (case md_notes u of None \<Rightarrow> m_notes m | Some v \<Rightarrow> Some v),
       m_lastInspection :=
         (case md_lastInspection u of None \<Rightarrow> m_lastInspection m | Some v \<Rightarrow> Some v),
       m_nextInspection :=
         (case md_nextInspection u of None \<Rightarrow> m_nextInspection m | Some v \<Rightarrow> Some v),
       m_createdBy := (case md_createdBy u of None \<Rightarrow> m_createdBy m | Some v \<Rightarrow> Some v),
       m_createdAt := with_default (m_createdAt m) (md_createdAt u)\<rparr>"

text \<open>
  The answer is \<open>res.json(material)\<close> with status 200 in both cases: the updated document,
  or \<open>null\<close> (here \<open>None\<close>) when the query found none. There is no test of the result.
\<close>

definition updateMaterial :: "db \<Rightarrow> string option \<Rightarrow> oid \<Rightarrow> material_data \<Rightarrow> error + (db \<times> material option)" where
  "updateMaterial s file mid body =
     (let updateData = put_set_state (attach_image file body) in
      case findById mid (materials s) of
        None \<Rightarrow> Inr (s, None)
      | Some m \<Rightarrow>
          Inr (s\<lparr>materials :=
                   update_first (\<lambda>m. m_id m = mid) (apply_update updateData) (materials s)\<rparr>,
               Some (apply_update updateData m)))"

section \<open>DELETE /api/materials/:id (lines 297-315)\<close>

text \<open>Lines 301-308: the first write of the route.\<close>

definition free_position :: "material \<Rightarrow> db \<Rightarrow> db" where
  "free_position material s =
     (case m_shelfId material of
        Some shelfId \<Rightarrow> setOccupancy shelfId (m_position material) False None s
      | None \<Rightarrow> s)"

text \<open>Line 310: the second write of the route.\<close>

definition findByIdAndDelete :: "oid \<Rightarrow> db \<Rightarrow> db" where
  "findByIdAndDelete mid s = s\<lparr>materials := remove_first (\<lambda>m. m_id m = mid) (materials s)\<rparr>"

text \<open>
  \<open>Material.findById\<close> answers \<open>null\<close> for an unknown id, and line 301 then reads
  \<open>shelfId\<close> of \<open>null\<close>: the exception is answered with status 400.
\<close>

definition deleteMaterial :: "db \<Rightarrow> oid \<Rightarrow> error + db" where
  "deleteMaterial s mid =
     (case findById mid (materials s) of
        None \<Rightarrow> Inl TypeError
      | Some material \<Rightarrow> Inr (findByIdAndDelete mid (free_position material s)))"

section \<open>POST /api/inspections (lines 318-333)\<close>

text \<open>\<open>req.body\<close>; a body without a \<open>materials\<close> key gives the empty array.\<close>

record inspection_body =
  ib_date :: "date option"
  ib_materials :: "oid list"
  ib_inspector :: "string option"
  ib_type :: "string option"
  ib_status :: "string option"
  ib_result :: "string option"
  ib_notes :: "string option"
  ib_report :: "string option"
  ib_createdAt :: "date option"

text \<open>Lines 320-321: the validators of InspectionSchema, the defaults, the insertion.\<close>

definition save_inspection :: "env \<Rightarrow> db \<Rightarrow> inspection_body \<Rightarrow> error + (db \<times> inspection)" where
  "save_inspection e s b =
     (case (ib_date b, ib_inspector b) of
        (Some d, Some inspector) \<Rightarrow>
          if inspector = [] then Inl ValidationError
          else if fresh_id e \<in> set (map i_id (inspections s)) then Inl DuplicateKey
          else
            (let i = \<lparr>i_id = fresh_id e, i_date = d, i_materials = ib_materials b,
                      i_inspector = inspector,
                      i_type = with_default ''hebdomadaire'' (ib_type b),
                      i_status = with_default ''planned'' (ib_status b),
                      i_result = ib_result b, i_notes = ib_notes b, i_report = ib_report b,
                      i_createdAt = with_default (now e) (ib_createdAt b)\<rparr>
             in Inr (s\<lparr>inspections := inspections s @ [i]\<rparr>, i))
      | _ \<Rightarrow> Inl ValidationError)"

text \<open>
  Lines 324-327: \<open>Material.updateMany({ _id: { $in: ids } }, { lastInspection: d })\<close>.
  Every material whose \<open>_id\<close> is among \<open>ids\<close> is written; an id that no material has
  selects nothing.
\<close>

definition updateMany_lastInspection :: "oid list \<Rightarrow> date \<Rightarrow> material list \<Rightarrow> material list" where
  "updateMany_lastInspection ids d ms =
     map (\<lambda>m. if m_id m \<in> set ids then m\<lparr>m_lastInspection := Some d\<rparr> else m) ms"

definition recordInspection :: "env \<Rightarrow> db \<Rightarrow> inspection_body \<Rightarrow> error + (db \<times> inspection)" where
  "recordInspection e s body =
     (case save_inspection e s body of
        Inl err \<Rightarrow> Inl err
      | Inr (s1, inspection) \<Rightarrow>
          Inr (s1\<lparr>materials :=
                    updateMany_lastInspection (i_materials inspection) (i_date inspection)
                      (materials s1)\<rparr>,
               inspection))"

section \<open>GET /api/stats (lines 347-380)\<close>







section \<open>Example data\<close>

text \<open>Concrete requests and databases on which the routes are run below.\<close>

definition env1 :: env where
  "env1 = \<lparr>fresh_id = 1, now = 1000\<rparr>"

definition shelf_body1 :: shelf_body where
  "shelf_body1 = \<lparr>sb_name = Some ''Rack'', sb_row = Some ''A'', sb_number = Some 12, sb_color = None\<rparr>"

definition shelf1 :: shelf where
  "shelf1 = \<lparr>s_id = 1, s_name = ''Rack'', s_row = ''A'', s_number = 12, s_color = ''#3b82f6'',
             s_positions = spec_grid ''A'' 12, s_createdBy = None, s_createdAt = 1000\<rparr>"

definition db1 :: db where
  "db1 = \<lparr>shelves = [shelf1], materials = [], inspections = []\<rparr>"

definition body_none :: material_data where
  "body_none = \<lparr>md_name = None, md_category = None, md_description = None, md_entryDate = None,
     md_condition = None, md_state = None, md_shelf = None, md_shelfId = None,
     md_position = None, md_color = None, md_image = None, md_notes = None,
     md_lastInspection = None, md_nextInspection = None, md_createdBy = None,
     md_createdAt = None\<rparr>"

definition env2 :: env where
  "env2 = \<lparr>fresh_id = 2, now = 2000\<rparr>"

definition env3 :: env where
  "env3 = \<lparr>fresh_id = 3, now = 3000\<rparr>"

definition material_body1 :: material_data where
  "material_body1 = body_none\<lparr>md_name := Some ''Drill'', md_category := Some ''Tools'',
     md_entryDate := Some 500, md_condition := Some 50, md_shelf := Some ''A12'',
     md_shelfId := Some 1, md_position := Some ''A12-M2''\<rparr>"

definition material_of :: "oid \<Rightarrow> date \<Rightarrow> string \<Rightarrow> material" where
  "material_of k t pid =
     \<lparr>m_id = k, m_name = ''Drill'', m_category = ''Tools'', m_description = None,
      m_entryDate = 500, m_condition = 50, m_state = ''warning'', m_shelf = ''A12'',
      m_shelfId = Some 1, m_position = pid, m_color = ''#3b82f6'', m_image = None,
      m_notes = None, m_lastInspection = None, m_nextInspection = None, m_createdBy = None,
      m_createdAt = t\<rparr>"

definition grid_M2 :: "oid \<Rightarrow> position list" where
  "grid_M2 k =
     [spec_position ''A'' 12 ''H'' ''Haut'' 1, spec_position ''A'' 12 ''H'' ''Haut'' 2,
      spec_position ''A'' 12 ''H'' ''Haut'' 3,
      spec_position ''A'' 12 ''M'' ''Milieu'' 1,
      \<lparr>positionId = ''A12-M2'', level = ''Milieu'', positionNumber = 2, occupied = True,
       materialId = Some k\<rparr>,
      spec_position ''A'' 12 ''M'' ''Milieu'' 3,
      spec_position ''A'' 12 ''B'' ''Bas'' 1, spec_position ''A'' 12 ''B'' ''Bas'' 2,
      spec_position ''A'' 12 ''B'' ''Bas'' 3]"

definition db2 :: db where
  "db2 = \<lparr>shelves = [shelf1\<lparr>s_positions := grid_M2 2\<rparr>],
          materials = [material_of 2 2000 ''A12-M2''], inspections = []\<rparr>"

definition db3 :: db where
  "db3 = \<lparr>shelves = [shelf1\<lparr>s_positions := grid_M2 3\<rparr>],
          materials = [material_of 2 2000 ''A12-M2'', material_of 3 3000 ''A12-M2''],
          inspections = []\<rparr>"

definition material_body_unmatched :: material_data where
  "material_body_unmatched = material_body1\<lparr>md_position := Some ''Z9''\<rparr>"

definition env4 :: env where
  "env4 = \<lparr>fresh_id = 4, now = 4000\<rparr>"

definition inspection_body1 :: inspection_body where
  "inspection_body1 = \<lparr>ib_date = Some 7777, ib_materials = [3, 99, 2], ib_inspector = Some ''Ana'',
     ib_type = None, ib_status = None, ib_result = None, ib_notes = None, ib_report = None,
     ib_createdAt = None\<rparr>"

definition inspection1 :: inspection where
  "inspection1 = \<lparr>i_id = 4, i_date = 7777, i_materials = [3, 99, 2], i_inspector = ''Ana'',
     i_type = ''hebdomadaire'', i_status = ''planned'', i_result = None, i_notes = None,
     i_report = None, i_createdAt = 4000\<rparr>"

definition db4 :: db where
  "db4 = \<lparr>shelves = [shelf1\<lparr>s_positions := grid_M2 3\<rparr>],
          materials = [(material_of 2 2000 ''A12-M2'')\<lparr>m_lastInspection := Some 7777\<rparr>,
                       (material_of 3 3000 ''A12-M2'')\<lparr>m_lastInspection := Some 7777\<rparr>],
          inspections = [inspection1]\<rparr>"

section \<open>Auxiliary facts\<close>

lemma make_positions_grid: "make_positions row (number_to_string number) = spec_grid row number"
  by (simp add: make_positions_def levels_def spec_grid_def spec_position_def new_position_def
      push_slots.simps [of _ _ _ 1] push_slots.simps [of _ _ _ 2] push_slots.simps [of _ _ _ 3]
      push_slots.simps [of _ _ _ 4])

lemma find_update_first:
  "(\<And>x. P (f x) = P x) \<Longrightarrow> find P (update_first P f xs) = map_option f (find P xs)"
  by (induction xs) auto

lemma find_append_fresh:
  "find P xs = None \<Longrightarrow> find P (xs @ [x]) = (if P x then Some x else None)"
  by (induction xs) auto

lemma save_material_Inr:
  "save_material e s md = Inr (s1, m) \<Longrightarrow>
     s1 = s\<lparr>materials := materials s @ [m]\<rparr> \<and> m_id m = fresh_id e \<and>
     m_shelfId m = md_shelfId md \<and> md_position md = Some (m_position m) \<and>
     md_condition md = Some (m_condition m) \<and> m_state m = with_default ''good'' (md_state md) \<and>
     0 \<le> m_condition m \<and> m_condition m \<le> 100"
  by (auto simp: save_material_def Let_def split: option.splits if_splits)

lemma number_to_string_index:
  "number_to_string 1 = ''1''" "number_to_string 2 = ''2''" "number_to_string 3 = ''3''"
  by (simp_all add: number_to_string_def nat_to_string.simps [of "Suc 0"]
      nat_to_string.simps [of 2] nat_to_string.simps [of 3] digit_char_def)

lemma createShelf_Inr:
  assumes "createShelf e s b = Inr (s', sh)"
  shows "sb_row b = Some (s_row sh)" and "sb_number b = Some (s_number sh)"
    and "sb_name b = Some (s_name sh)"
    and "s_positions sh = make_positions (s_row sh) (number_to_string (s_number sh))"
    and "s' = s\<lparr>shelves := shelves s @ [sh]\<rparr>"
    and "s_id sh = fresh_id e" and "fresh_id e \<notin> set (map s_id (shelves s))"
    and "find_shelf_at (sb_row b) (sb_number b) (shelves s) = None"
  using assms
  by (auto simp: createShelf_def save_shelf_def tmpl_string_def tmpl_number_def Let_def
      split: option.splits if_splits)

lemma find_None_iff_ids: "(find (\<lambda>x. f x = k) xs = None) = (k \<notin> set (map f xs))"
  by (induction xs) auto

lemma updateMaterial_missing:
  "findById mid (materials s) = None \<Longrightarrow> updateMaterial s file mid body = Inr (s, None)"
  by (simp add: updateMaterial_def)

lemma number_to_string_12: "number_to_string 12 = ''12''"
  by (simp add: number_to_string_def nat_to_string.simps [of 12] nat_to_string.simps [of "Suc 0"]
      digit_char_def)

lemmas example_defs =
  env1_def env2_def env3_def shelf1_def db1_def db2_def db3_def material_body1_def body_none_def
  material_of_def grid_M2_def spec_grid_def spec_position_def number_to_string_12
  number_to_string_index empty_db_def

lemmas route_defs =
  createMaterial_def save_material_def post_set_state_def attach_image_def classify_def
  setOccupancy_def set_positions_def with_default_def Let_def findById_def findShelfById_def
  deleteMaterial_def free_position_def findByIdAndDelete_def

lemma body_unchanged [simp]:
  "md_shelfId (post_set_state md) = md_shelfId md"
  "md_position (post_set_state md) = md_position md"
  "md_condition (post_set_state md) = md_condition md"
  "md_shelfId (attach_image file md) = md_shelfId md"
  "md_position (attach_image file md) = md_position md"
  "md_condition (attach_image file md) = md_condition md"
  "md_state (attach_image file md) = md_state md"
  by (simp_all add: post_set_state_def attach_image_def split: option.split)

lemma save_material_fresh:
  "save_material e s md = Inr (s1, m) \<Longrightarrow> fresh_id e \<notin> set (map m_id (materials s))"
  by (auto simp: save_material_def Let_def split: option.splits if_splits)

lemma setOccupancy_shelf:
  "findShelfById sid (shelves s) = Some sh \<Longrightarrow>
   findShelfById sid (shelves (setOccupancy sid pid occ mref s)) = Some (set_positions pid occ mref sh)"
  by (simp add: setOccupancy_def findShelfById_def find_update_first set_positions_def)

lemma setOccupancy_materials [simp]:
  "materials (setOccupancy sid pid occ mref s) = materials s"
  by (simp add: setOccupancy_def)

lemma createMaterial_Inr:
  assumes "createMaterial e s file body = Inr (s', m)"
  shows "save_material e s (post_set_state (attach_image file body)) =
           Inr (s\<lparr>materials := materials s @ [m]\<rparr>, m)"
    and "s' = (case m_shelfId m of
                 Some sid \<Rightarrow> setOccupancy sid (m_position m) True (Some (m_id m))
                               (s\<lparr>materials := materials s @ [m]\<rparr>)
               | None \<Rightarrow> s\<lparr>materials := materials s @ [m]\<rparr>)"
proof -
  obtain s1 m1 where sv: "save_material e s (post_set_state (attach_image file body)) = Inr (s1, m1)"
    using assms by (auto simp: createMaterial_def Let_def split: sum.splits)
  have m1: "m1 = m" and s': "s' = (case m_shelfId m of
                 Some sid \<Rightarrow> setOccupancy sid (m_position m) True (Some (m_id m)) s1
               | None \<Rightarrow> s1)"
    using assms sv by (auto simp: createMaterial_def Let_def split: option.splits)
  have s1: "s1 = s\<lparr>materials := materials s @ [m]\<rparr>"
    using save_material_Inr [OF sv] m1 by simp
  show "save_material e s (post_set_state (attach_image file body)) =
           Inr (s\<lparr>materials := materials s @ [m]\<rparr>, m)"
    using sv m1 s1 by simp
  show "s' = (case m_shelfId m of
                 Some sid \<Rightarrow> setOccupancy sid (m_position m) True (Some (m_id m))
                               (s\<lparr>materials := materials s @ [m]\<rparr>)
               | None \<Rightarrow> s\<lparr>materials := materials s @ [m]\<rparr>)"
    unfolding s' s1 by (rule refl)
qed

lemma update_first_find_id:
  "find P xs = Some x \<Longrightarrow> f x = x \<Longrightarrow> update_first P f xs = xs"
  by (induction xs) (auto split: if_splits)

lemma set_positions_unmatched:
  "pid \<notin> set (map positionId (s_positions sh)) \<Longrightarrow> set_positions pid occ mref sh = sh"
proof -
  assume nm: "pid \<notin> set (map positionId (s_positions sh))"
  have "map (\<lambda>pos. if positionId pos = pid then pos\<lparr>occupied := occ, materialId := mref\<rparr> else pos)
          (s_positions sh) = s_positions sh"
    using nm by (intro map_idI) auto
  then show ?thesis
    by (simp add: set_positions_def)
qed

lemma setOccupancy_unmatched_shelves:
  assumes "findShelfById sid (shelves s) = Some sh"
    and "pid \<notin> set (map positionId (s_positions sh))"
  shows "setOccupancy sid pid occ mref s = s"
proof -
  have "update_first (\<lambda>sh. s_id sh = sid) (set_positions pid occ mref) (shelves s) = shelves s"
    using assms by (intro update_first_find_id [where x = sh])
      (simp_all add: findShelfById_def set_positions_unmatched)
  then show ?thesis
    by (simp add: setOccupancy_def)
qed


lemma save_inspection_ok:
  assumes "ib_date b = Some D" and "ib_inspector b = Some w" and "w \<noteq> []"
    and "fresh_id e \<notin> set (map i_id (inspections s))"
  shows "save_inspection e s b =
           Inr (s\<lparr>inspections := inspections s @
                   [\<lparr>i_id = fresh_id e, i_date = D, i_materials = ib_materials b,
                     i_inspector = w, i_type = with_default ''hebdomadaire'' (ib_type b),
                     i_status = with_default ''planned'' (ib_status b),
                     i_result = ib_result b, i_notes = ib_notes b, i_report = ib_report b,
                     i_createdAt = with_default (now e) (ib_createdAt b)\<rparr>]\<rparr>,
                \<lparr>i_id = fresh_id e, i_date = D, i_materials = ib_materials b,
                  i_inspector = w, i_type = with_default ''hebdomadaire'' (ib_type b),
                  i_status = with_default ''planned'' (ib_status b),
                  i_result = ib_result b, i_notes = ib_notes b, i_report = ib_report b,
                  i_createdAt = with_default (now e) (ib_createdAt b)\<rparr>)"
  using assms by (simp add: save_inspection_def Let_def)

lemma updateMany_set_cong:
  "set ids' = set ids \<Longrightarrow> updateMany_lastInspection ids' d ms = updateMany_lastInspection ids d ms"
  by (simp add: updateMany_lastInspection_def)

lemma createMaterial_state:
  assumes "createMaterial e s file body = Inr (s', m)" and "md_condition body = Some c"
  shows "m_condition m = c" and "m_state m = classify c"
    and "materials s' = materials s @ [m]"
proof -
  note cr = createMaterial_Inr [OF assms(1)]
  note sv = save_material_Inr [OF cr(1)]
  show "m_condition m = c"
    using sv assms(2) by simp
  then show "m_state m = classify c"
    using sv assms(2) by (simp add: post_set_state_def with_default_def)
  show "materials s' = materials s @ [m]"
    unfolding cr(2) by (simp split: option.split)
qed

lemma m_id_apply_update [simp]: "m_id (apply_update u m) = m_id m"
  by (simp add: apply_update_def)

section \<open>Properties of the routes\<close>

text \<open>
  C1. For every integer condition \<open>c\<close> given to the creation of a material, the derived state
  is good exactly when \<open>c \<ge> 80\<close>, warning exactly when \<open>40 \<le> c < 80\<close> and bad exactly when
  \<open>c < 40\<close>; the state is always one of the three. This is the value that lines 194-200
  write into the request data, and the value a stored material carries.
\<close>

theorem classify_thresholds:
  "(classify c = ''good'') = (c \<ge> 80) \<and>
   (classify c = ''warning'') = (40 \<le> c \<and> c < 80) \<and>
   (classify c = ''bad'') = (c < 40) \<and>
   classify c \<in> {''good'', ''warning'', ''bad''} \<and>
   md_state (post_set_state (attach_image upload (body\<lparr>md_condition := Some c\<rparr>))) =
     Some (classify c) \<and>
   (\<forall>e s s' m.
      createMaterial e s upload (body\<lparr>md_condition := Some c\<rparr>) = Inr (s', m) \<longrightarrow>
        m_condition m = c \<and> m_state m = classify c)"
proof -
  have chain: "(classify c = ''good'') = (c \<ge> 80) \<and>
     (classify c = ''warning'') = (40 \<le> c \<and> c < 80) \<and>
     (classify c = ''bad'') = (c < 40) \<and>
     classify c \<in> {''good'', ''warning'', ''bad''}"
    by (simp add: classify_def)
  have derived: "md_state (post_set_state (attach_image upload (body\<lparr>md_condition := Some c\<rparr>))) =
     Some (classify c)"
    by (simp add: post_set_state_def)
  have stored: "\<forall>e s s' m.
      createMaterial e s upload (body\<lparr>md_condition := Some c\<rparr>) = Inr (s', m) \<longrightarrow>
        m_condition m = c \<and> m_state m = classify c"
    using createMaterial_state [where body = "body\<lparr>md_condition := Some c\<rparr>" and c = c]
    by simp
  show ?thesis
    using chain derived stored by blast
qed

theorem classify_thresholds_witness:
  "createMaterial env2 db1 None (material_body1\<lparr>md_condition := Some 50\<rparr>) =
     Inr (db2, material_of 2 2000 ''A12-M2'') \<and>
   m_condition (material_of 2 2000 ''A12-M2'') = 50 \<and>
   m_state (material_of 2 2000 ''A12-M2'') = ''warning'' \<and>
   classify 50 = ''warning'' \<and> classify 80 = ''good'' \<and> classify 79 = ''warning'' \<and>
   classify 40 = ''warning'' \<and> classify 39 = ''bad'' \<and> classify (- 1) = ''bad'' \<and>
   classify 101 = ''good''"
proof -
  have run: "createMaterial env2 db1 None (material_body1\<lparr>md_condition := Some 50\<rparr>) =
     Inr (db2, material_of 2 2000 ''A12-M2'')"
    by (simp add: route_defs example_defs)
  from classify_thresholds [of 50 None material_body1] run
  have "m_condition (material_of 2 2000 ''A12-M2'') = 50 \<and>
        m_state (material_of 2 2000 ''A12-M2'') = classify 50 \<and> classify 50 = ''warning''"
    by simp
  moreover have "classify 80 = ''good''" "classify 79 = ''warning''" "classify 40 = ''warning''"
    "classify 39 = ''bad''" "classify (- 1) = ''bad''" "classify 101 = ''good''"
    using classify_thresholds [of 80 None material_body1]
      classify_thresholds [of 79 None material_body1]
      classify_thresholds [of 40 None material_body1]
      classify_thresholds [of 39 None material_body1]
      classify_thresholds [of "- 1" None material_body1]
      classify_thresholds [of 101 None material_body1]
    by simp_all
  ultimately show ?thesis
    using run by simp
qed

text \<open>
  C2. A shelf that \<open>POST /api/shelves\<close> creates holds exactly nine positions: three per level
  for the three levels, with index 1..3 on each level, the identifier
  \<open>{row}{number}-{levelCode}{index}\<close>, none occupied and none with a material reference.
  The shelf is stored.
\<close>

theorem createShelf_positions:
  assumes "createShelf e s b = Inr (s', sh)"
  shows "sb_row b = Some (s_row sh) \<and> sb_number b = Some (s_number sh) \<and>
         s_positions sh = spec_grid (s_row sh) (s_number sh) \<and>
         length (s_positions sh) = 9 \<and>
         (\<forall>p \<in> set (s_positions sh). \<not> occupied p \<and> materialId p = None) \<and>
         (\<forall>lvl \<in> {''Haut'', ''Milieu'', ''Bas''}.
            map positionNumber (filter (\<lambda>p. level p = lvl) (s_positions sh)) = [1, 2, 3]) \<and>
         distinct (map positionId (s_positions sh)) \<and>
         findShelfById (s_id sh) (shelves s') = Some sh"
proof -
  note r = createShelf_Inr [OF assms]
  have grid: "s_positions sh = spec_grid (s_row sh) (s_number sh)"
    using r(4) by (simp add: make_positions_grid)
  have len: "length (s_positions sh) = 9"
    by (simp add: grid spec_grid_def)
  have free: "\<forall>p \<in> set (s_positions sh). \<not> occupied p \<and> materialId p = None"
    by (simp add: grid spec_grid_def spec_position_def)
  have lv: "\<forall>lvl \<in> {''Haut'', ''Milieu'', ''Bas''}.
      map positionNumber (filter (\<lambda>p. level p = lvl) (s_positions sh)) = [1, 2, 3]"
    by (simp add: grid spec_grid_def spec_position_def)
  have dist: "distinct (map positionId (s_positions sh))"
    by (simp add: grid spec_grid_def spec_position_def number_to_string_index)
  have "find (\<lambda>x. s_id x = fresh_id e) (shelves s) = None"
    using r(7) by (simp add: find_None_iff_ids)
  then have stored: "findShelfById (s_id sh) (shelves s') = Some sh"
    by (simp add: r(5) r(6) findShelfById_def find_append_fresh)
  show ?thesis
    using r(1) r(2) grid len free lv dist stored by blast
qed

theorem createShelf_positions_witness:
  "createShelf env1 empty_db shelf_body1 = Inr (db1, shelf1) \<and>
   map positionId (s_positions shelf1) =
     [''A12-H1'', ''A12-H2'', ''A12-H3'', ''A12-M1'', ''A12-M2'', ''A12-M3'',
      ''A12-B1'', ''A12-B2'', ''A12-B3''] \<and>
   length (s_positions shelf1) = 9 \<and>
   map occupied (s_positions shelf1) = replicate 9 False \<and>
   map materialId (s_positions shelf1) = replicate 9 None"
proof -
  have run: "createShelf env1 empty_db shelf_body1 = Inr (db1, shelf1)"
    by (simp add: createShelf_def save_shelf_def find_shelf_at_def empty_db_def env1_def
        shelf_body1_def db1_def shelf1_def tmpl_string_def tmpl_number_def with_default_def
        make_positions_grid Let_def)
  have ids: "map positionId (spec_grid ''A'' 12) =
     [''A12-H1'', ''A12-H2'', ''A12-H3'', ''A12-M1'', ''A12-M2'', ''A12-M3'',
      ''A12-B1'', ''A12-B2'', ''A12-B3'']"
    by (simp add: spec_grid_def spec_position_def number_to_string_index)
      (simp add: number_to_string_def nat_to_string.simps [of 12] nat_to_string.simps [of "Suc 0"]
        digit_char_def)
  have flags: "map occupied (spec_grid ''A'' 12) = replicate 9 False"
    "map materialId (spec_grid ''A'' 12) = replicate 9 None"
    by (simp_all add: spec_grid_def spec_position_def numeral_eq_Suc)
  from createShelf_positions [OF run] have "s_positions shelf1 = spec_grid (s_row shelf1) (s_number shelf1)"
    and "length (s_positions shelf1) = 9"
    by blast+
  then show ?thesis
    using run ids flags by (simp add: shelf1_def)
qed

text \<open>
  C3. The claim is that an update of an id that no material has fails with a not-found error.
  On the route, the query finds nothing and the answer is status 200 with \<open>null\<close>, while the
  read of the same id by \<open>GET /api/materials/:id\<close> answers 404.
\<close>

theorem updateMaterial_unknown_id:
  "updateMaterial empty_db None 7 (body_none\<lparr>md_name := Some ''Drill''\<rparr>) = Inr (empty_db, None) \<and>
   getMaterial empty_db 7 = Inl NotFound"
  by (simp add: updateMaterial_def getMaterial_def findById_def empty_db_def)

text \<open>
  C4. After a successful creation of a material that carries a shelf id and the identifier of
  a position of that shelf, every position of the shelf with that identifier is occupied and
  references the new material; what the position held before plays no part, so a previous
  occupant's reference is overwritten.
\<close>

theorem createMaterial_occupies:
  assumes ok: "createMaterial e s file body = Inr (s', m)"
    and sid: "md_shelfId body = Some sid"
    and sh: "findShelfById sid (shelves s) = Some sh"
    and p: "p \<in> set (s_positions sh)"
    and pid: "md_position body = Some (positionId p)"
  shows "\<exists>sh'. findShelfById sid (shelves s') = Some sh' \<and>
           s_positions sh' =
             map (\<lambda>q. if positionId q = positionId p
                       then q\<lparr>occupied := True, materialId := Some (m_id m)\<rparr> else q)
               (s_positions sh) \<and>
           p\<lparr>occupied := True, materialId := Some (m_id m)\<rparr> \<in> set (s_positions sh') \<and>
           (\<forall>q \<in> set (s_positions sh').
              positionId q = positionId p \<longrightarrow> occupied q \<and> materialId q = Some (m_id m)) \<and>
           findById (m_id m) (materials s') = Some m"
proof -
  note c = createMaterial_Inr [OF ok]
  note sv = save_material_Inr [OF c(1)]
  have msid: "m_shelfId m = Some sid" and mpos: "m_position m = positionId p"
    using sv sid pid by simp_all
  let ?s1 = "s\<lparr>materials := materials s @ [m]\<rparr>"
  have s': "s' = setOccupancy sid (positionId p) True (Some (m_id m)) ?s1"
    using c(2) msid mpos by simp
  let ?sh' = "set_positions (positionId p) True (Some (m_id m)) sh"
  have f: "findShelfById sid (shelves s') = Some ?sh'"
    unfolding s' by (rule setOccupancy_shelf) (simp add: sh)
  have pos: "s_positions ?sh' =
             map (\<lambda>q. if positionId q = positionId p
                       then q\<lparr>occupied := True, materialId := Some (m_id m)\<rparr> else q)
               (s_positions sh)"
    by (simp add: set_positions_def)
  have mem: "p\<lparr>occupied := True, materialId := Some (m_id m)\<rparr> \<in> set (s_positions ?sh')"
    unfolding pos using p by force
  have all: "\<forall>q \<in> set (s_positions ?sh').
              positionId q = positionId p \<longrightarrow> occupied q \<and> materialId q = Some (m_id m)"
    unfolding pos by auto
  have "find (\<lambda>x. m_id x = fresh_id e) (materials s) = None"
    using save_material_fresh [OF c(1)] by (simp add: find_None_iff_ids)
  then have st: "findById (m_id m) (materials s') = Some m"
    using sv by (simp add: s' findById_def find_append_fresh)
  show ?thesis
    using f pos mem all st by blast
qed

theorem createMaterial_occupies_witness:
  "createMaterial env3 db2 None material_body1 = Inr (db3, material_of 3 3000 ''A12-M2'') \<and>
   filter (\<lambda>q. positionId q = ''A12-M2'') (s_positions (hd (shelves db2))) =
     [\<lparr>positionId = ''A12-M2'', level = ''Milieu'', positionNumber = 2, occupied = True,
       materialId = Some 2\<rparr>] \<and>
   filter (\<lambda>q. positionId q = ''A12-M2'') (s_positions (hd (shelves db3))) =
     [\<lparr>positionId = ''A12-M2'', level = ''Milieu'', positionNumber = 2, occupied = True,
       materialId = Some 3\<rparr>] \<and>
   findById 3 (materials db3) = Some (material_of 3 3000 ''A12-M2'')"
proof -
  let ?p = "\<lparr>positionId = ''A12-M2'', level = ''Milieu'', positionNumber = 2, occupied = True,
       materialId = Some 2\<rparr>"
  have run: "createMaterial env3 db2 None material_body1 = Inr (db3, material_of 3 3000 ''A12-M2'')"
    by (simp add: route_defs example_defs)
  have a: "md_shelfId material_body1 = Some 1"
    and b: "findShelfById 1 (shelves db2) = Some (shelf1\<lparr>s_positions := grid_M2 2\<rparr>)"
    and c: "?p \<in> set (s_positions (shelf1\<lparr>s_positions := grid_M2 2\<rparr>))"
    and d: "md_position material_body1 = Some (positionId ?p)"
    by (simp_all add: route_defs example_defs)
  have before: "filter (\<lambda>q. positionId q = ''A12-M2'') (s_positions (hd (shelves db2))) = [?p]"
    by (simp add: example_defs)
  have after: "filter (\<lambda>q. positionId q = ''A12-M2'') (s_positions (hd (shelves db3))) =
     [\<lparr>positionId = ''A12-M2'', level = ''Milieu'', positionNumber = 2, occupied = True,
       materialId = Some 3\<rparr>]"
    by (simp add: example_defs)
  from createMaterial_occupies [OF run a b c d]
  have "findById (m_id (material_of 3 3000 ''A12-M2'')) (materials db3) =
          Some (material_of 3 3000 ''A12-M2'')"
    by blast
  then have "findById 3 (materials db3) = Some (material_of 3 3000 ''A12-M2'')"
    by (simp add: material_of_def)
  then show ?thesis
    using run before after by simp
qed

text \<open>
  C5. The claim is that setting the occupancy fails with a position-not-found error when the
  identifier matches no position of the shelf. On the code it does not: at the input below
  the creation succeeds and the shelf is unchanged.
\<close>

theorem createMaterial_unmatched_position:
  "createMaterial env2 db1 None material_body_unmatched =
     Inr (db1\<lparr>materials := [material_of 2 2000 ''Z9'']\<rparr>, material_of 2 2000 ''Z9'') \<and>
   findShelfById 1 (shelves db1) = Some shelf1 \<and>
   ''Z9'' \<notin> set (map positionId (s_positions shelf1)) \<and>
   shelves (db1\<lparr>materials := [material_of 2 2000 ''Z9'']\<rparr>) = shelves db1"
  by (simp add: route_defs example_defs material_body_unmatched_def)

text \<open>
  C5, as the code has it: when the identifier matches no position of the shelf, setting the
  occupancy changes nothing and raises no error, so the creation answers what saving the
  material answers and the deletion removes the material.
\<close>

theorem setOccupancy_unmatched:
  assumes sh: "findShelfById sid (shelves s) = Some sh"
    and nm: "pid \<notin> set (map positionId (s_positions sh))"
  shows "setOccupancy sid pid occ mref s = s \<and>
         (md_shelfId body = Some sid \<and> md_position body = Some pid \<longrightarrow>
            createMaterial e s file body =
              save_material e s (post_set_state (attach_image file body))) \<and>
         (findById mid (materials s) = Some m \<and> m_shelfId m = Some sid \<and> m_position m = pid \<longrightarrow>
            deleteMaterial s mid = Inr (findByIdAndDelete mid s))"
proof (intro conjI impI)
  show same: "setOccupancy sid pid occ mref s = s"
    using sh nm by (rule setOccupancy_unmatched_shelves)
  show "createMaterial e s file body = save_material e s (post_set_state (attach_image file body))"
    if b: "md_shelfId body = Some sid \<and> md_position body = Some pid"
  proof (cases "save_material e s (post_set_state (attach_image file body))")
    case (Inl err)
    then show ?thesis
      by (simp add: createMaterial_def)
  next
    case (Inr r)
    obtain s1 m1 where r: "r = (s1, m1)"
      by (cases r)
    note sv = save_material_Inr [OF Inr [unfolded r]]
    have "findShelfById sid (shelves s1) = Some sh"
      using sv sh by simp
    then have "setOccupancy sid pid True (Some (m_id m1)) s1 = s1"
      using nm by (rule setOccupancy_unmatched_shelves)
    moreover have "m_shelfId m1 = Some sid" "m_position m1 = pid"
      using sv b by simp_all
    ultimately show ?thesis
      using Inr r by (simp add: createMaterial_def)
  qed
  show "deleteMaterial s mid = Inr (findByIdAndDelete mid s)"
    if d: "findById mid (materials s) = Some m \<and> m_shelfId m = Some sid \<and> m_position m = pid"
  proof -
    have "setOccupancy sid pid False None s = s"
      using sh nm by (rule setOccupancy_unmatched_shelves)
    then show ?thesis
      using d by (simp add: deleteMaterial_def free_position_def)
  qed
qed

theorem setOccupancy_unmatched_witness:
  "findShelfById 1 (shelves db1) = Some shelf1 \<and>
   ''Z9'' \<notin> set (map positionId (s_positions shelf1)) \<and>
   setOccupancy 1 ''Z9'' True (Some 2) db1 = db1 \<and>
   createMaterial env2 db1 None material_body_unmatched =
     save_material env2 db1 (post_set_state (attach_image None material_body_unmatched))"
proof -
  have a: "findShelfById 1 (shelves db1) = Some shelf1"
    and b: "''Z9'' \<notin> set (map positionId (s_positions shelf1))"
    and c: "md_shelfId material_body_unmatched = Some 1 \<and>
            md_position material_body_unmatched = Some ''Z9''"
    by (simp_all add: route_defs example_defs material_body_unmatched_def)
  from setOccupancy_unmatched [OF a b, of True "Some 2" material_body_unmatched env2 None]
  show ?thesis
    using a b c by blast
qed



text \<open>
  C7. Recording an inspection with date \<open>D\<close> and material ids \<open>M\<close> (with an inspector named)
  succeeds whatever \<open>M\<close> holds, stores the inspection, and sets \<open>lastInspection\<close> to \<open>D\<close> on
  every stored material whose id is in \<open>M\<close>; the other materials are kept, no material is
  added for an id that none has, and the materials that result depend on the set of ids only,
  not on their order.
\<close>

theorem recordInspection_cascade:
  assumes d: "ib_date b = Some D"
    and who: "ib_inspector b = Some w" and nonempty: "w \<noteq> []"
    and fresh: "fresh_id e \<notin> set (map i_id (inspections s))"
  shows "\<exists>s' i. recordInspection e s b = Inr (s', i) \<and>
           i_date i = D \<and> i_materials i = ib_materials b \<and>
           inspections s' = inspections s @ [i] \<and>
           materials s' =
             map (\<lambda>m. if m_id m \<in> set (ib_materials b) then m\<lparr>m_lastInspection := Some D\<rparr> else m)
               (materials s) \<and>
           (\<forall>m \<in> set (materials s').
              m_id m \<in> set (ib_materials b) \<longrightarrow> m_lastInspection m = Some D) \<and>
           map m_id (materials s') = map m_id (materials s) \<and>
           (\<forall>M'. set M' = set (ib_materials b) \<longrightarrow>
              (\<exists>s'' i'. recordInspection e s (b\<lparr>ib_materials := M'\<rparr>) = Inr (s'', i') \<and>
                 materials s'' = materials s'))"
proof -
  let ?i = "\<lambda>M. \<lparr>i_id = fresh_id e, i_date = D, i_materials = M,
                  i_inspector = w, i_type = with_default ''hebdomadaire'' (ib_type b),
                  i_status = with_default ''planned'' (ib_status b),
                  i_result = ib_result b, i_notes = ib_notes b, i_report = ib_report b,
                  i_createdAt = with_default (now e) (ib_createdAt b)\<rparr>"
  let ?s' = "\<lambda>M. s\<lparr>inspections := inspections s @ [?i M],
                   materials := updateMany_lastInspection M D (materials s)\<rparr>"
  have run: "recordInspection e s (b\<lparr>ib_materials := M\<rparr>) = Inr (?s' M, ?i M)" for M
    using save_inspection_ok [of "b\<lparr>ib_materials := M\<rparr>" D w e s] d who nonempty fresh
    by (simp add: recordInspection_def)
  have run0: "recordInspection e s b = Inr (?s' (ib_materials b), ?i (ib_materials b))"
    using run [of "ib_materials b"] by simp
  have mats: "materials (?s' (ib_materials b)) =
             map (\<lambda>m. if m_id m \<in> set (ib_materials b) then m\<lparr>m_lastInspection := Some D\<rparr> else m)
               (materials s)"
    by (simp add: updateMany_lastInspection_def)
  have all: "\<forall>m \<in> set (materials (?s' (ib_materials b))).
              m_id m \<in> set (ib_materials b) \<longrightarrow> m_lastInspection m = Some D"
    unfolding mats by auto
  have ids: "map m_id (materials (?s' (ib_materials b))) = map m_id (materials s)"
    unfolding mats by (simp add: comp_def if_distrib cong: if_cong)
  have order: "\<forall>M'. set M' = set (ib_materials b) \<longrightarrow>
              (\<exists>s'' i'. recordInspection e s (b\<lparr>ib_materials := M'\<rparr>) = Inr (s'', i') \<and>
                 materials s'' = materials (?s' (ib_materials b)))"
  proof (intro allI impI)
    fix M'
    assume "set M' = set (ib_materials b)"
    then have "updateMany_lastInspection M' D (materials s) =
               updateMany_lastInspection (ib_materials b) D (materials s)"
      by (rule updateMany_set_cong)
    then show "\<exists>s'' i'. recordInspection e s (b\<lparr>ib_materials := M'\<rparr>) = Inr (s'', i') \<and>
                 materials s'' = materials (?s' (ib_materials b))"
      using run [of M'] by simp
  qed
  show ?thesis
  proof (intro exI conjI)
    show "recordInspection e s b = Inr (?s' (ib_materials b), ?i (ib_materials b))"
      by (rule run0)
    show "i_date (?i (ib_materials b)) = D" "i_materials (?i (ib_materials b)) = ib_materials b"
      "inspections (?s' (ib_materials b)) = inspections s @ [?i (ib_materials b)]"
      by simp_all
  qed (rule mats all ids order)+
qed

theorem recordInspection_cascade_witness:
  "recordInspection env4 db3 inspection_body1 = Inr (db4, inspection1) \<and>
   map m_id (materials db3) = [2, 3] \<and>
   map m_lastInspection (materials db3) = [None, None] \<and>
   map m_lastInspection (materials db4) = [Some 7777, Some 7777] \<and>
   recordInspection env4 db3 (inspection_body1\<lparr>ib_materials := [2, 3, 99, 99]\<rparr>) =
     Inr (db4\<lparr>inspections := [inspection1\<lparr>i_materials := [2, 3, 99, 99]\<rparr>]\<rparr>,
          inspection1\<lparr>i_materials := [2, 3, 99, 99]\<rparr>)"
proof -
  have a: "ib_date inspection_body1 = Some 7777"
    and b: "ib_inspector inspection_body1 = Some ''Ana''"
    and c: "''Ana'' \<noteq> []"
    and d: "fresh_id env4 \<notin> set (map i_id (inspections db3))"
    by (simp_all add: inspection_body1_def env4_def db3_def)
  from recordInspection_cascade [OF a b c d]
  obtain s' i where run: "recordInspection env4 db3 inspection_body1 = Inr (s', i)"
    and i: "i_date i = 7777" by blast
  have direct: "recordInspection env4 db3 inspection_body1 = Inr (db4, inspection1)"
    by (simp add: recordInspection_def save_inspection_def updateMany_lastInspection_def
        inspection_body1_def inspection1_def env4_def db3_def db4_def material_of_def
        with_default_def Let_def)
  have other: "recordInspection env4 db3 (inspection_body1\<lparr>ib_materials := [2, 3, 99, 99]\<rparr>) =
     Inr (db4\<lparr>inspections := [inspection1\<lparr>i_materials := [2, 3, 99, 99]\<rparr>]\<rparr>,
          inspection1\<lparr>i_materials := [2, 3, 99, 99]\<rparr>)"
    by (simp add: recordInspection_def save_inspection_def updateMany_lastInspection_def
        inspection_body1_def inspection1_def env4_def db3_def db4_def material_of_def
        with_default_def Let_def)
  have before: "map m_id (materials db3) = [2, 3]"
    "map m_lastInspection (materials db3) = [None, None]"
    "map m_lastInspection (materials db4) = [Some 7777, Some 7777]"
    by (simp_all add: db3_def db4_def material_of_def)
  show ?thesis
    using run direct other before by simp
qed



text \<open>
  C9. The claim is that a creation with a condition outside 0..100 succeeds. On the code the
  validator of the schema (\<open>min: 0, max: 100\<close>, line 66) rejects the document when it is
  saved: the creation with condition 150 is answered with a validation error.
\<close>

theorem createMaterial_condition_150:
  "createMaterial env2 db1 None (material_body1\<lparr>md_condition := Some 150\<rparr>) = Inl ValidationError"
  by (simp add: route_defs example_defs)

text \<open>
  C9, as the code has it: a creation with a condition outside 0..100 fails with a validation
  error, and the state derived from the condition before the save follows the same
  thresholds as for a condition in range.
\<close>

theorem createMaterial_out_of_range:
  assumes c: "md_condition body = Some c" and out: "c < 0 \<or> 100 < c"
  shows "createMaterial e s file body = Inl ValidationError \<and>
         md_state (post_set_state (attach_image file body)) = Some (classify c)"
proof -
  have "md_condition (post_set_state (attach_image file body)) = Some c"
    using c by simp
  then have "save_material e s (post_set_state (attach_image file body)) = Inl ValidationError"
    using out by (auto simp: save_material_def split: option.splits)
  then have "createMaterial e s file body = Inl ValidationError"
    by (simp add: createMaterial_def)
  moreover have "md_state (post_set_state (attach_image file body)) = Some (classify c)"
    using c by (simp add: post_set_state_def)
  ultimately show ?thesis
    by simp
qed

theorem createMaterial_out_of_range_witness:
  "createMaterial env2 db1 None (material_body1\<lparr>md_condition := Some 150\<rparr>) = Inl ValidationError \<and>
   md_state (post_set_state (attach_image None (material_body1\<lparr>md_condition := Some 150\<rparr>))) =
     Some ''good'' \<and>
   createMaterial env2 db1 None (material_body1\<lparr>md_condition := Some (- 5)\<rparr>) = Inl ValidationError \<and>
   md_state (post_set_state (attach_image None (material_body1\<lparr>md_condition := Some (- 5)\<rparr>))) =
     Some ''bad''"
proof -
  have a: "md_condition (material_body1\<lparr>md_condition := Some 150\<rparr>) = Some 150"
    and b: "md_condition (material_body1\<lparr>md_condition := Some (- 5)\<rparr>) = Some (- 5)"
    by simp_all
  have c: "(150::int) < 0 \<or> 100 < (150::int)" and d: "(- 5::int) < 0 \<or> 100 < (- 5::int)"
    by simp_all
  show ?thesis
    using createMaterial_out_of_range [OF a c, of env2 db1 None]
      createMaterial_out_of_range [OF b d, of env2 db1 None]
    by (simp add: classify_def)
qed

text \<open>
  C10. An update of an existing material that supplies the number 0 as condition skips the
  classification: the update data is left as it came. When the update supplies no state, the
  stored condition becomes 0 and the state keeps its previous value, so afterwards the state
  is the classification of the condition only if the state was bad before.
\<close>

theorem updateMaterial_condition_zero:
  assumes m: "findById mid (materials s) = Some m"
    and c: "md_condition body = Some 0"
  shows "put_set_state (attach_image file body) = attach_image file body \<and>
         (md_state body = None \<longrightarrow>
            (\<exists>s' m'. updateMaterial s file mid body = Inr (s', Some m') \<and>
               findById mid (materials s') = Some m' \<and>
               m_condition m' = 0 \<and> m_state m' = m_state m \<and>
               (m_state m' = classify (m_condition m')) = (m_state m = ''bad'')))"
proof (intro conjI impI)
  have c': "md_condition (attach_image file body) = Some 0"
    using c by simp
  show skip: "put_set_state (attach_image file body) = attach_image file body"
    using c' by (simp add: put_set_state_def)
  assume st: "md_state body = None"
  let ?u = "attach_image file body"
  let ?m' = "apply_update ?u m"
  let ?s' = "s\<lparr>materials := update_first (\<lambda>m. m_id m = mid) (apply_update ?u) (materials s)\<rparr>"
  have run: "updateMaterial s file mid body = Inr (?s', Some ?m')"
    using m skip by (simp add: updateMaterial_def Let_def)
  have stored: "findById mid (materials ?s') = Some ?m'"
    using m by (simp add: findById_def find_update_first)
  have cond: "m_condition ?m' = 0"
    using c' by (simp add: apply_update_def with_default_def)
  have state: "m_state ?m' = m_state m"
    using st by (simp add: apply_update_def with_default_def)
  have inv: "(m_state ?m' = classify (m_condition ?m')) = (m_state m = ''bad'')"
    unfolding cond state by (simp add: classify_def)
  show "\<exists>s' m'. updateMaterial s file mid body = Inr (s', Some m') \<and>
               findById mid (materials s') = Some m' \<and>
               m_condition m' = 0 \<and> m_state m' = m_state m \<and>
               (m_state m' = classify (m_condition m')) = (m_state m = ''bad'')"
    using run stored cond state inv by blast
qed

theorem updateMaterial_condition_zero_witness:
  "findById 2 (materials db2) = Some (material_of 2 2000 ''A12-M2'') \<and>
   m_state (material_of 2 2000 ''A12-M2'') = classify (m_condition (material_of 2 2000 ''A12-M2'')) \<and>
   updateMaterial db2 None 2 (body_none\<lparr>md_condition := Some 0\<rparr>) =
     Inr (db2\<lparr>materials := [(material_of 2 2000 ''A12-M2'')\<lparr>m_condition := 0\<rparr>]\<rparr>,
          Some ((material_of 2 2000 ''A12-M2'')\<lparr>m_condition := 0\<rparr>)) \<and>
   m_state ((material_of 2 2000 ''A12-M2'')\<lparr>m_condition := 0\<rparr>) = ''warning'' \<and>
   classify 0 = ''bad''"
proof -
  have a: "findById 2 (materials db2) = Some (material_of 2 2000 ''A12-M2'')"
    and b: "md_condition (body_none\<lparr>md_condition := Some 0\<rparr>) = Some 0"
    and n: "md_state (body_none\<lparr>md_condition := Some 0\<rparr>) = None"
    by (simp_all add: route_defs example_defs)
  from updateMaterial_condition_zero [OF a b, of None] n
  have ex: "\<exists>s' m'. updateMaterial db2 None 2 (body_none\<lparr>md_condition := Some 0\<rparr>) =
              Inr (s', Some m') \<and> m_condition m' = 0 \<and>
              m_state m' = m_state (material_of 2 2000 ''A12-M2'')"
    by blast
  have direct: "updateMaterial db2 None 2 (body_none\<lparr>md_condition := Some 0\<rparr>) =
     Inr (db2\<lparr>materials := [(material_of 2 2000 ''A12-M2'')\<lparr>m_condition := 0\<rparr>]\<rparr>,
          Some ((material_of 2 2000 ''A12-M2'')\<lparr>m_condition := 0\<rparr>))"
    by (simp add: updateMaterial_def put_set_state_def apply_update_def route_defs example_defs)
  have "m_state (material_of 2 2000 ''A12-M2'') = classify (m_condition (material_of 2 2000 ''A12-M2''))"
    "m_state ((material_of 2 2000 ''A12-M2'')\<lparr>m_condition := 0\<rparr>) = ''warning''"
    "classify 0 = ''bad''"
    by (simp_all add: material_of_def classify_def)
  then show ?thesis
    using a ex direct by simp
qed

end
